theory Spec2Isabelle
  imports Complex_Main "HOL-Library.Sublist"
begin

section \<open>Python values shared by the models\<close>

text \<open>
  A Python \<open>str\<close> is a sequence of Unicode code points, so it is modelled as a list of
  natural numbers; \<open>py\<close> embeds an ASCII literal. Python floats that only hold quotients
  of small counts are modelled by exact rationals.
\<close>

type_synonym pystr = "nat list"

definition py :: "string \<Rightarrow> pystr" where
  "py s = map of_char s"

datatype py_error =
    IndexError
  | KeyError
  | ValueError
  | AttributeError
  | ZeroDivisionError
  | TypeError
  | Exception pystr

text \<open>
  \<open>str.lower\<close> restricted to ASCII. The models below take the lower-casing function as
  an argument, so that their theorems hold for Python's full Unicode \<open>str.lower\<close>
  as well; \<open>ascii_lower\<close> is the instance used on concrete inputs.
\<close>

definition ascii_lower :: "pystr \<Rightarrow> pystr" where
  "ascii_lower s = map (\<lambda>c. if 65 \<le> c \<and> c \<le> 90 then c + 32 else c) s"


section \<open>\<open>utils.labels_match\<close>\<close>

text \<open>
  The first \<open>re.sub\<close>: every right single quotation mark (U+2019, code point 8217)
  becomes an apostrophe (39).
\<close>

definition sub_quote :: "pystr \<Rightarrow> pystr" where
  "sub_quote s = map (\<lambda>c. if c = 8217 then 39 else c) s"

text \<open>\<open>re.sub(r'!|\[|\]|\(|\)', '', s)\<close>: the characters \<open>! [ ] ( )\<close> are deleted.\<close>

definition sub_punct :: "pystr \<Rightarrow> pystr" where
  "sub_punct s = filter (\<lambda>c. c \<noteq> 33 \<and> c \<noteq> 91 \<and> c \<noteq> 93 \<and> c \<noteq> 40 \<and> c \<noteq> 41) s"

text \<open>
  \<open>re.split\<close> with the pattern of three alternatives used throughout: a comma (44)
  followed by a space (32), a single space, and a single no-break space (U+00A0, 160),
  tried in this order at each position, scanning from the left. \<open>cur\<close> is the token
  read so far.
\<close>

fun re_split_from :: "pystr \<Rightarrow> pystr \<Rightarrow> pystr list" where
  "re_split_from cur [] = [cur]"
| "re_split_from cur (c # cs) =
     (if c = 44 \<and> cs \<noteq> [] \<and> hd cs = 32 then cur # re_split_from [] (tl cs)
      else if c = 32 \<or> c = 160 then cur # re_split_from [] cs
      else re_split_from (cur @ [c]) cs)"

definition re_split :: "pystr \<Rightarrow> pystr list" where
  "re_split s = re_split_from [] s"

text \<open>
  The counting loop \<open>for word in xs: if word in ys: coef += 1\<close>, and the quotient
  \<open>coef / len(xs)\<close>, which raises on an empty list.
\<close>

definition count_words_in :: "pystr list \<Rightarrow> pystr list \<Rightarrow> nat" where
  "count_words_in xs ys = fold (\<lambda>word coef. if word \<in> set ys then coef + 1 else coef) xs 0"

definition py_truediv :: "nat \<Rightarrow> nat \<Rightarrow> py_error + rat" where
  "py_truediv a b = (if b = 0 then Inl ZeroDivisionError else Inr (of_nat a / of_nat b))"

definition match_coef :: "pystr list \<Rightarrow> pystr list \<Rightarrow> py_error + rat" where
  "match_coef l0 l1 =
     (let coef_01 = count_words_in l0 l1;
          coef_10 = count_words_in l1 l0
      in case py_truediv coef_01 (length l0) of
           Inl e \<Rightarrow> Inl e
         | Inr q01 \<Rightarrow>
            (case py_truediv coef_10 (length l1) of
               Inl e \<Rightarrow> Inl e
             | Inr q10 \<Rightarrow> Inr (max q01 q10)))"

text \<open>List indexing \<open>xs[i]\<close> for a non-negative literal index.\<close>

definition py_index :: "'a list \<Rightarrow> nat \<Rightarrow> py_error + 'a" where
  "py_index xs i = (if i < length xs then Inr (xs ! i) else Inl IndexError)"

definition labels_match ::
  "(pystr \<Rightarrow> pystr) \<Rightarrow> pystr list \<Rightarrow> pystr list \<Rightarrow> rat \<Rightarrow> py_error + bool" where
  "labels_match lower original_labels compared_labels match_thresh0 =
     (let match_thresh = match_thresh0 - 1 / 100000 in
      (case py_index original_labels 0 of Inl e \<Rightarrow> Inl e | Inr artist_0 \<Rightarrow>
      (case py_index original_labels 1 of Inl e \<Rightarrow> Inl e | Inr song_0 \<Rightarrow>
      (case py_index compared_labels 0 of Inl e \<Rightarrow> Inl e | Inr artist_1 \<Rightarrow>
      (case py_index compared_labels 1 of Inl e \<Rightarrow> Inl e | Inr song_1 \<Rightarrow>
        (if artist_1 = py ''NaN'' \<or> song_1 = py ''NaN'' then Inr False
         else
          (let artist_0' = re_split (lower (sub_quote artist_0));
               artist_1' = re_split (lower (sub_quote artist_1))
           in (case match_coef artist_0' artist_1' of Inl e \<Rightarrow> Inl e | Inr coef_a \<Rightarrow>
          (let song_0' = re_split (lower (sub_punct (sub_quote song_0)));
               song_1' = re_split (lower (sub_punct (sub_quote song_1)))
           in (case match_coef song_0' song_1' of Inl e \<Rightarrow> Inl e | Inr coef_s \<Rightarrow>
             (if coef_a \<ge> match_thresh \<and> coef_s \<ge> match_thresh
              then Inr True else Inr False)))))))))))"

text \<open>
  The quantities of the specification: the tokens of a label, the fraction of the tokens
  of one label (counted with repetition) that occur among the tokens of the other, and
  the overlap coefficient, the larger of the two fractions.
\<close>

definition artist_tokens :: "(pystr \<Rightarrow> pystr) \<Rightarrow> pystr \<Rightarrow> pystr list" where
  "artist_tokens lower s = re_split (lower (sub_quote s))"

definition song_tokens :: "(pystr \<Rightarrow> pystr) \<Rightarrow> pystr \<Rightarrow> pystr list" where
  "song_tokens lower s = re_split (lower (sub_punct (sub_quote s)))"

definition overlap_fraction :: "pystr list \<Rightarrow> pystr list \<Rightarrow> rat" where
  "overlap_fraction xs ys = of_nat (length (filter (\<lambda>w. w \<in> set ys) xs)) / of_nat (length xs)"

definition overlap_coef :: "pystr list \<Rightarrow> pystr list \<Rightarrow> rat" where
  "overlap_coef xs ys = max (overlap_fraction xs ys) (overlap_fraction ys xs)"


section \<open>\<open>utils.artist_stats\<close>\<close>

text \<open>
  A row of the chart table: the columns of the crawl output. Dates are day numbers;
  \<open>last_week\<close> is \<open>None\<close> where the table holds NaN.
\<close>

record chart_row =
  date :: int
  pos :: int
  artist :: pystr
  song :: pystr
  last_week :: "int option"
  peak_pos :: int
  wks_on_chart :: int

text \<open>
  \<open>df.assign(score=lambda x: 101 - x.pos)\<close>: every row gets the extra column
  \<open>score\<close>, kept here as the second component.
\<close>

definition assign_score :: "chart_row list \<Rightarrow> (chart_row \<times> int) list" where
  "assign_score df = map (\<lambda>x. (x, 101 - pos x)) df"











section \<open>The crawl: \<open>items.py\<close>, \<open>itemloaders.py\<close> and \<open>spiders/billboard.py\<close>\<close>

subsection \<open>Values, fields and items\<close>

text \<open>
  The values a field of an item can hold: a string, an integer, the float NaN, a date
  (its day number). \<open>BillboardItem\<close> declares seven fields; an item is a dictionary
  from declared fields to values.
\<close>

datatype pyval = PyStr pystr | PyInt int | PyNaN | PyDate int

datatype field = F_date | F_pos | F_artist | F_song | F_last_week | F_peak_pos | F_wks_on_chart

type_synonym item = "field \<rightharpoonup> pyval"

text \<open>\<open>str.strip()\<close>: the white space of Python's \<open>str\<close> is removed at both ends.\<close>

definition is_space :: "nat \<Rightarrow> bool" where
  "is_space c = ((9 \<le> c \<and> c \<le> 13) \<or> (28 \<le> c \<and> c \<le> 32) \<or> c = 133 \<or> c = 160 \<or> c = 5760
     \<or> (8192 \<le> c \<and> c \<le> 8202) \<or> c = 8232 \<or> c = 8233 \<or> c = 8239 \<or> c = 8287 \<or> c = 12288)"

definition strip :: "pystr \<Rightarrow> pystr" where
  "strip s = rev (dropWhile is_space (rev (dropWhile is_space s)))"



subsection \<open>The processors of the item loader\<close>

















subsection \<open>Dates\<close>





subsection \<open>The spider\<close>





text \<open>\<open>s.replace(old, '')\<close> for a non-empty \<open>old\<close>, scanning from the left.\<close>

function str_remove :: "pystr \<Rightarrow> pystr \<Rightarrow> pystr" where
  "str_remove old [] = []"
| "str_remove old (c # cs) =
     (if old \<noteq> [] \<and> prefix old (c # cs) then str_remove old (drop (length old) (c # cs))
      else c # str_remove old cs)"
  by pat_completeness auto
termination
  by (relation "measure (\<lambda>(old, s). length s)") (auto simp: neq_Nil_conv)
















section \<open>\<open>utils.spotify_audio_features\<close>\<close>

text \<open>
  The function talks to four HTTP endpoints. The model runs it against an environment
  \<open>env\<close> that gives the response to the \<open>k\<close>-th request of the run, and records
  what the run does in a trace: the requests (endpoint, Authorization header, payload),
  the messages printed, the delays and the writes of the log file. The progress display
  is not recorded. The state holds the Authorization header, the number of requests
  issued so far and the trace. A message is kept by its kind and the response body it
  shows; the message about the rate limit of the search shows the time of the call plus
  the seconds of the retry-after header, and is kept by these seconds. An exception
  raised with a message is kept by the fixed part of the message.
\<close>

datatype endpoint = Token_api | Search_api | Features_api | Artists_api

record track =
  t_artists :: "(pystr \<times> pystr) list option"
  t_name :: pystr
  t_id :: pystr

datatype body = Tracks "track list" | Token pystr | Json pystr

record response =
  status_code :: int
  retry_after :: "pystr option"
  json :: body

datatype message =
    Search_rate_limit int
  | Search_exception body
  | Features_exception body
  | Artists_exception body
  | Postpone

datatype 'f event =
    Request endpoint pystr pystr
  | Print message
  | Sleep nat
  | To_csv bool bool 'f

record 'f state =
  header_auth :: pystr
  n_req :: nat
  trace :: "'f event list"

text \<open>How a request loop ends: \<open>break\<close> with the response, \<open>return\<close>, or an exception.\<close>

datatype 'a flow = Break 'a | Return bool | Raise py_error

record batch_row =
  b_date :: int
  b_artist_orig :: pystr
  b_song_orig :: pystr
  b_artist_spot :: pystr
  b_song_spot :: pystr
  b_artist_spot_id :: pystr
  b_song_spot_id :: pystr
  b_match :: nat

definition issue :: "endpoint \<Rightarrow> pystr \<Rightarrow> pystr \<Rightarrow> 'f state \<Rightarrow> 'f state" where
  "issue ep hdr payload sta =
     sta\<lparr>n_req := n_req sta + 1, trace := trace sta @ [Request ep hdr payload]\<rparr>"

definition emit :: "'f event list \<Rightarrow> 'f state \<Rightarrow> 'f state" where
  "emit es sta = sta\<lparr>trace := trace sta @ es\<rparr>"

text \<open>
  \<open>auth_update\<close>: the client-credentials exchange. It raises unless the token endpoint
  answers 200; then the bearer token replaces the Authorization header.
\<close>

definition auth_update :: "(nat \<Rightarrow> response) \<Rightarrow> 'f state \<Rightarrow> (py_error + bool) \<times> 'f state" where
  "auth_update env sta =
     (let token_resp = env (n_req sta);
          sta1 = issue Token_api [] [] sta
      in if status_code token_resp \<noteq> 200
         then (Inl (Exception (py ''Token exception'')), sta1)
         else (case json token_resp of
                 Token access_token \<Rightarrow>
                   (Inr True, sta1\<lparr>header_auth := py ''Bearer '' @ access_token\<rparr>)
               | _ \<Rightarrow> (Inl KeyError, sta1)))"

text \<open>
  The \<open>while True\<close> loop around the search request. It may run forever, so it is a
  partial function: \<open>None\<close> is the run that never leaves the loop.
\<close>

partial_function (option) search_loop ::
  "(pystr \<Rightarrow> py_error + int) \<Rightarrow> (nat \<Rightarrow> response) \<Rightarrow> pystr \<Rightarrow> 'f state
     \<Rightarrow> (response flow \<times> 'f state) option" where
  "search_loop to_int env payload_search sta =
     (let spot_q_resp = env (n_req sta);
          sta1 = issue Search_api (header_auth sta) payload_search sta;
          spot_q_sc = status_code spot_q_resp
      in if spot_q_sc = 429 then
           (case retry_after spot_q_resp of
              None \<Rightarrow> Some (Raise KeyError, sta1)
            | Some s \<Rightarrow>
                (case to_int s of
                   Inl e \<Rightarrow> Some (Raise e, sta1)
                 | Inr secs \<Rightarrow> Some (Return False, emit [Print (Search_rate_limit secs)] sta1)))
         else if spot_q_sc = 401 then
           (case auth_update env sta1 of
              (Inl e, sta2) \<Rightarrow> Some (Raise e, sta2)
            | (Inr _, sta2) \<Rightarrow> search_loop to_int env payload_search sta2)
         else if spot_q_sc \<noteq> 200 then
           search_loop to_int env payload_search
             (emit [Print (Search_exception (json spot_q_resp)), Print Postpone, Sleep 5] sta1)
         else Some (Break spot_q_resp, sta1))"

text \<open>
  The \<open>while True\<close> loop of \<open>save_batch\<close>: both requests are issued, then the two status
  codes are tested in the order of the source.
\<close>

partial_function (option) batch_loop ::
  "(nat \<Rightarrow> response) \<Rightarrow> pystr \<Rightarrow> pystr \<Rightarrow> 'f state
     \<Rightarrow> ((py_error + response \<times> response) \<times> 'f state) option" where
  "batch_loop env payload_feat payload_artist sta =
     (let spot_feat_resp = env (n_req sta);
          sta1 = issue Features_api (header_auth sta) payload_feat sta;
          spot_artist_resp = env (n_req sta1);
          sta2 = issue Artists_api (header_auth sta1) payload_artist sta1;
          feat_sc = status_code spot_feat_resp;
          artist_sc = status_code spot_artist_resp
      in if feat_sc = 429 then
           Some (Inl (Exception (py ''Audio features rate limit exceeded'')), sta2)
         else if artist_sc = 429 then
           Some (Inl (Exception (py ''Artists rate limit exceeded'')), sta2)
         else if feat_sc = 401 \<or> artist_sc = 401 then
           (case auth_update env sta2 of
              (Inl e, sta3) \<Rightarrow> Some (Inl e, sta3)
            | (Inr _, sta3) \<Rightarrow> batch_loop env payload_feat payload_artist sta3)
         else if feat_sc \<noteq> 200 then
           batch_loop env payload_feat payload_artist
             (emit [Print (Features_exception (json spot_feat_resp)), Print Postpone, Sleep 5] sta2)
         else if artist_sc \<noteq> 200 then
           batch_loop env payload_feat payload_artist
             (emit [Print (Artists_exception (json spot_artist_resp)), Print Postpone, Sleep 5] sta2)
         else Some (Inr (spot_feat_resp, spot_artist_resp), sta2))"

definition batch_size :: nat where
  "batch_size = 50"

fun join_comma :: "pystr list \<Rightarrow> pystr" where
  "join_comma [] = []"
| "join_comma [x] = x"
| "join_comma (x # y # ys) = x @ [44] @ join_comma (y # ys)"

text \<open>
  \<open>save_batch\<close>. The pandas part that builds the merged frame from the batch and the two
  JSON bodies is the argument \<open>merge_frames\<close>; it may raise.
\<close>

definition save_batch ::
  "(batch_row list \<Rightarrow> body \<Rightarrow> body \<Rightarrow> py_error + 'f) \<Rightarrow> (nat \<Rightarrow> response) \<Rightarrow> batch_row list
     \<Rightarrow> 'f state \<Rightarrow> ((py_error + 'f) \<times> 'f state) option" where
  "save_batch merge_frames env batch_list sta =
     (let song_IDs = map b_song_spot_id (filter (\<lambda>b. b_match b = 1) batch_list);
          payload_feat = join_comma song_IDs;
          artist_IDs = map b_artist_spot_id (filter (\<lambda>b. b_match b = 1) batch_list);
          payload_artist = join_comma artist_IDs
      in case batch_loop env payload_feat payload_artist sta of
           None \<Rightarrow> None
         | Some (Inl e, sta') \<Rightarrow> Some (Inl e, sta')
         | Some (Inr (spot_feat_resp, spot_artist_resp), sta') \<Rightarrow>
             Some (merge_frames batch_list (json spot_feat_resp) (json spot_artist_resp), sta'))"

text \<open>
  The loop over the tracks found: the first track whose labels match ends it with
  \<open>matched = 1\<close>; without a match the values of the last track stay, with \<open>matched = 0\<close>.
\<close>

fun match_items ::
  "(pystr \<Rightarrow> pystr) \<Rightarrow> pystr \<Rightarrow> pystr \<Rightarrow> track list \<Rightarrow> pystr \<times> pystr \<times> pystr \<times> pystr \<times> nat
     \<Rightarrow> py_error + pystr \<times> pystr \<times> pystr \<times> pystr \<times> nat" where
  "match_items lower artist_orig song_orig [] found = Inr found"
| "match_items lower artist_orig song_orig (item # items) found =
     (case (case t_artists item of
              None \<Rightarrow> Inr (py ''NaN'', py ''NaN'')
            | Some [] \<Rightarrow> Inl IndexError
            | Some (a # _) \<Rightarrow> Inr a) of
        Inl e \<Rightarrow> Inl e
      | Inr (artist_spot, artist_spot_id) \<Rightarrow>
          (case labels_match lower [artist_orig, song_orig] [artist_spot, t_name item] (1 / 2) of
             Inl e \<Rightarrow> Inl e
           | Inr matched \<Rightarrow>
               if matched then Inr (artist_spot, t_name item, artist_spot_id, t_id item, 1)
               else match_items lower artist_orig song_orig items
                      (artist_spot, t_name item, artist_spot_id, t_id item, 0)))"

text \<open>The query string built from the original labels.\<close>

definition search_payload :: "pystr \<Rightarrow> pystr \<Rightarrow> pystr" where
  "search_payload artist_orig song_orig =
     (let artist_search =
            strip (filter (\<lambda>c. c \<noteq> 46)
              (str_remove (py ''The'') (takeWhile (\<lambda>c. c \<noteq> 44) artist_orig)));
          song_search = filter (\<lambda>c. c \<noteq> 39) song_orig
      in py ''artist:'' @ artist_search @ py '' track:'' @ song_search)"

text \<open>
  One pass of the inner \<open>for\<close> loop: it either goes on with a new batch container and
  batch counter, or ends the call. \<open>To_csv append header frame\<close> is a write of the log
  file: the first full batch is written with \<open>mode='w'\<close> and a header, the later ones
  with \<open>mode='a', header=False\<close>.
\<close>

datatype 'f step =
    Continue "batch_row list" nat "'f state"
  | Stop "py_error + bool" "'f state"

definition process_row ::
  "(pystr \<Rightarrow> pystr) \<Rightarrow> (pystr \<Rightarrow> py_error + int)
     \<Rightarrow> (batch_row list \<Rightarrow> body \<Rightarrow> body \<Rightarrow> py_error + 'f) \<Rightarrow> (nat \<Rightarrow> response)
     \<Rightarrow> chart_row \<Rightarrow> batch_row list \<Rightarrow> nat \<Rightarrow> 'f state \<Rightarrow> 'f step option" where
  "process_row lower to_int merge_frames env hot batch_list batch_i sta =
     (let artist_orig = artist hot;
          song_orig = song hot
      in case search_loop to_int env (search_payload artist_orig song_orig) sta of
           None \<Rightarrow> None
         | Some (Raise e, sta1) \<Rightarrow> Some (Stop (Inl e) sta1)
         | Some (Return b, sta1) \<Rightarrow> Some (Stop (Inr b) sta1)
         | Some (Break spot_q_resp, sta1) \<Rightarrow>
             (case json spot_q_resp of
                Tracks spot_q \<Rightarrow>
                  (case (if spot_q \<noteq> []
                         then match_items lower artist_orig song_orig spot_q
                                (py ''NaN'', py ''NaN'', py ''NaN'', py ''NaN'', 0)
                         else Inr (py ''NaN'', py ''NaN'', py ''NaN'', py ''NaN'', 0)) of
                     Inl e \<Rightarrow> Some (Stop (Inl e) sta1)
                   | Inr (a_spot, s_spot, a_id, s_id, matched) \<Rightarrow>
                       (let batch_list' = batch_list @
                              [\<lparr>b_date = date hot, b_artist_orig = artist_orig,
                                b_song_orig = song_orig, b_artist_spot = a_spot,
                                b_song_spot = s_spot, b_artist_spot_id = a_id,
                                b_song_spot_id = s_id, b_match = matched\<rparr>]
                        in if length batch_list' = batch_size then
                             (case save_batch merge_frames env batch_list' sta1 of
                                None \<Rightarrow> None
                              | Some (Inl e, sta2) \<Rightarrow> Some (Stop (Inl e) sta2)
                              | Some (Inr batch_feat_df, sta2) \<Rightarrow>
                                  Some (Continue [] (batch_i + 1)
                                    (emit [To_csv (batch_i \<noteq> 0) (batch_i = 0) batch_feat_df] sta2)))
                           else Some (Continue batch_list' batch_i sta1)))
              | _ \<Rightarrow> Some (Stop (Inl KeyError) sta1)))"

text \<open>
  The loop over all rows, followed by the write of the remaining rows, always with
  \<open>mode='a', header=False\<close>.
\<close>

fun process_rows ::
  "(pystr \<Rightarrow> pystr) \<Rightarrow> (pystr \<Rightarrow> py_error + int)
     \<Rightarrow> (batch_row list \<Rightarrow> body \<Rightarrow> body \<Rightarrow> py_error + 'f) \<Rightarrow> (nat \<Rightarrow> response)
     \<Rightarrow> chart_row list \<Rightarrow> batch_row list \<Rightarrow> nat \<Rightarrow> 'f state
     \<Rightarrow> ((py_error + bool) \<times> 'f state) option" where
  "process_rows lower to_int merge_frames env [] batch_list batch_i sta =
     (if batch_list \<noteq> [] then
        (case save_batch merge_frames env batch_list sta of
           None \<Rightarrow> None
         | Some (Inl e, sta') \<Rightarrow> Some (Inl e, sta')
         | Some (Inr batch_feat_df, sta') \<Rightarrow>
             Some (Inr True, emit [To_csv True False batch_feat_df] sta'))
      else Some (Inr True, sta))"
| "process_rows lower to_int merge_frames env (hot # hots) batch_list batch_i sta =
     (case process_row lower to_int merge_frames env hot batch_list batch_i sta of
        None \<Rightarrow> None
      | Some (Stop r sta') \<Rightarrow> Some (r, sta')
      | Some (Continue batch_list' batch_i' sta') \<Rightarrow>
          process_rows lower to_int merge_frames env hots batch_list' batch_i' sta')"

text \<open>
  The whole function: the first authorisation, then the rows in the order of
  \<open>groupby(level='date')\<close>, by date and in their given order within a date.
\<close>

definition spotify_audio_features ::
  "(pystr \<Rightarrow> pystr) \<Rightarrow> (pystr \<Rightarrow> py_error + int)
     \<Rightarrow> (batch_row list \<Rightarrow> body \<Rightarrow> body \<Rightarrow> py_error + 'f) \<Rightarrow> (nat \<Rightarrow> response)
     \<Rightarrow> chart_row list \<Rightarrow> ((py_error + bool) \<times> 'f state) option" where
  "spotify_audio_features lower to_int merge_frames env df =
     (case auth_update env \<lparr>header_auth = [], n_req = 0, trace = []\<rparr> of
        (Inl e, sta) \<Rightarrow> Some (Inl e, sta)
      | (Inr _, sta) \<Rightarrow>
          process_rows lower to_int merge_frames env (sort_key date df) [] 0 sta)"


text \<open>
  A status code that is neither success, rate limit nor expired token; and the state
  after the two requests of one pass of the loop of \<open>save_batch\<close>.
\<close>

definition retryable :: "int \<Rightarrow> bool" where
  "retryable sc = (sc \<noteq> 200 \<and> sc \<noteq> 429 \<and> sc \<noteq> 401)"

definition batch_requests :: "pystr \<Rightarrow> pystr \<Rightarrow> 'f state \<Rightarrow> 'f state" where
  "batch_requests pf pa sta =
     issue Artists_api (header_auth sta) pa (issue Features_api (header_auth sta) pf sta)"




















text \<open>
  The writes of the log file in a trace, each as the pair (append, header), and the
  writes of a run over \<open>m\<close> rows that starts with the batch counter \<open>i\<close>: one per
  full batch, the one with counter 0 with a header and the others appended, then one
  more appended without header when rows remain.
\<close>

fun csv_flag :: "'f event \<Rightarrow> (bool \<times> bool) list" where
  "csv_flag (To_csv mode_a with_header batch_feat_df) = [(mode_a, with_header)]"
| "csv_flag _ = []"

definition csv_writes :: "'f event list \<Rightarrow> (bool \<times> bool) list" where
  "csv_writes tr = concat (map csv_flag tr)"

definition expected_writes :: "nat \<Rightarrow> nat \<Rightarrow> (bool \<times> bool) list" where
  "expected_writes m i =
     map (\<lambda>j. (j \<noteq> 0, j = 0)) [i..<i + m div batch_size]
       @ (if m mod batch_size \<noteq> 0 then [(True, False)] else [])"

section \<open>\<open>utils.genres_popul\<close>\<close>




























section \<open>Properties of \<open>labels_match\<close>\<close>

lemma re_split_from_nonempty: "re_split_from cur s \<noteq> []"
  by (induction cur s rule: re_split_from.induct) auto

lemma re_split_nonempty: "re_split s \<noteq> []"
  by (simp add: re_split_def re_split_from_nonempty)

lemma fold_count_words:
  "fold (\<lambda>word coef. if word \<in> set ys then coef + 1 else coef) xs n
     = n + length (filter (\<lambda>w. w \<in> set ys) xs)"
  by (induction xs arbitrary: n) auto

lemma count_words_in_filter: "count_words_in xs ys = length (filter (\<lambda>w. w \<in> set ys) xs)"
  by (simp add: count_words_in_def fold_count_words)

lemma match_coef_overlap:
  "xs \<noteq> [] \<Longrightarrow> ys \<noteq> [] \<Longrightarrow> match_coef xs ys = Inr (overlap_coef xs ys)"
  by (simp add: match_coef_def py_truediv_def overlap_coef_def overlap_fraction_def
      count_words_in_filter)

lemma overlap_fraction_self: "xs \<noteq> [] \<Longrightarrow> overlap_fraction xs xs = 1"
  by (simp add: overlap_fraction_def)

lemma overlap_coef_self: "xs \<noteq> [] \<Longrightarrow> overlap_coef xs xs = 1"
  by (simp add: overlap_coef_def overlap_fraction_self)

lemma re_split_from_no_separator:
  "t \<in> set (re_split_from cur s) \<Longrightarrow> 32 \<notin> set cur \<Longrightarrow> 160 \<notin> set cur
     \<Longrightarrow> 32 \<notin> set t \<and> 160 \<notin> set t"
  by (induction cur s rule: re_split_from.induct) (auto split: if_splits)

lemma re_split_no_separator: "t \<in> set (re_split s) \<Longrightarrow> 32 \<notin> set t \<and> 160 \<notin> set t"
  using re_split_from_no_separator [of t "[]" s] by (simp add: re_split_def)

lemma tokens_nonempty: "artist_tokens lower s \<noteq> []" "song_tokens lower s \<noteq> []"
  by (simp_all add: artist_tokens_def song_tokens_def re_split_nonempty)

lemma labels_match_lists:
  assumes "2 \<le> length orig" and "2 \<le> length cmpd"
  shows "labels_match lower orig cmpd th =
     (if cmpd ! 0 = py ''NaN'' \<or> cmpd ! 1 = py ''NaN'' then Inr False
      else Inr (th - 1 / 100000
                  \<le> overlap_coef (artist_tokens lower (orig ! 0)) (artist_tokens lower (cmpd ! 0))
              \<and> th - 1 / 100000
                  \<le> overlap_coef (song_tokens lower (orig ! 1)) (song_tokens lower (cmpd ! 1))))"
proof -
  have "py_index orig 0 = Inr (orig ! 0)" "py_index orig 1 = Inr (orig ! 1)"
    "py_index cmpd 0 = Inr (cmpd ! 0)" "py_index cmpd 1 = Inr (cmpd ! 1)"
    using assms by (auto simp: py_index_def)
  then show ?thesis
    by (simp add: labels_match_def Let_def artist_tokens_def song_tokens_def
        match_coef_overlap re_split_nonempty)
qed

lemma labels_match_short:
  "length orig < 2 \<or> length cmpd < 2 \<Longrightarrow> labels_match lower orig cmpd th = Inl IndexError"
  by (auto simp: labels_match_def py_index_def Let_def)

text \<open>
  Two runs on literals: a bare comma does not separate tokens, and the punctuation is
  kept in artist labels, so that an artist label of one token that differs in it does
  not match.
\<close>

lemma re_split_example:
  "re_split (py ''Earth,Wind & Fire, Inc'') = [py ''Earth,Wind'', py ''&'', py ''Fire'', py ''Inc'']"
  by code_simp

lemma artist_punctuation_kept:
  "labels_match ascii_lower [py ''P!nk'', py ''So What''] [py ''Pnk'', py ''So What''] (1 / 2)
     = Inr False"
  by code_simp



text \<open>
  C9. Whenever the compared artist label or the compared song label is the string
  \<open>NaN\<close>, \<open>labels_match\<close> returns \<open>False\<close>, whatever the original labels and the
  threshold. The original labels are not checked: with \<open>NaN\<close> only in the first
  argument the function can return \<open>True\<close>, and swapping the arguments then gives
  \<open>False\<close>.
\<close>

theorem labels_match_null_compared:
  "(2 \<le> length orig \<and> 2 \<le> length cmpd \<and> (cmpd ! 0 = py ''NaN'' \<or> cmpd ! 1 = py ''NaN'')
      \<longrightarrow> labels_match lower orig cmpd th = Inr False)
   \<and> labels_match ascii_lower [py ''NaN'', py ''NaN''] [py ''nan'', py ''nan''] (1 / 2) = Inr True
   \<and> labels_match ascii_lower [py ''nan'', py ''nan''] [py ''NaN'', py ''NaN''] (1 / 2) = Inr False"
proof -
  have l: "ascii_lower (py ''NaN'') = py ''nan''"
    by (simp add: py_def ascii_lower_def)
  have q: "sub_quote (py ''NaN'') = py ''NaN''" "sub_quote (py ''nan'') = py ''nan''"
    "sub_punct (py ''NaN'') = py ''NaN''" "sub_punct (py ''nan'') = py ''nan''"
    by (simp_all add: py_def sub_quote_def sub_punct_def)
  have ll: "ascii_lower (py ''nan'') = py ''nan''"
    by (simp add: py_def ascii_lower_def)
  have ne: "py ''nan'' \<noteq> py ''NaN''"
    by (simp add: py_def)
  have t: "artist_tokens ascii_lower (py ''NaN'') = artist_tokens ascii_lower (py ''nan'')"
    "song_tokens ascii_lower (py ''NaN'') = song_tokens ascii_lower (py ''nan'')"
    by (simp_all add: artist_tokens_def song_tokens_def q l ll)
  have "labels_match ascii_lower [py ''NaN'', py ''NaN''] [py ''nan'', py ''nan''] (1 / 2) = Inr True"
    using ne by (simp add: labels_match_lists t overlap_coef_self tokens_nonempty)
  moreover have "labels_match ascii_lower [py ''nan'', py ''nan''] [py ''NaN'', py ''NaN''] (1 / 2)
      = Inr False"
    by (simp add: labels_match_lists)
  ultimately show ?thesis
    by (simp add: labels_match_lists)
qed

theorem labels_match_null_compared_witness:
  "2 \<le> length [py ''Elvis'', py ''Hound Dog''] \<and> 2 \<le> length [py ''NaN'', py ''Hound Dog'']
   \<and> [py ''NaN'', py ''Hound Dog''] ! 0 = py ''NaN''
   \<and> labels_match ascii_lower [py ''Elvis'', py ''Hound Dog''] [py ''NaN'', py ''Hound Dog''] 0
       = Inr False"
  using labels_match_null_compared
    [of "[py ''Elvis'', py ''Hound Dog'']" "[py ''NaN'', py ''Hound Dog'']" ascii_lower 0]
  by simp

section \<open>Properties of \<open>artist_stats\<close>\<close>




lemma map_fst_assign_score: "map (\<lambda>x. f (fst x)) (assign_score df) = map f df"
  by (simp add: assign_score_def comp_def)




section \<open>Properties of the crawl\<close>

















section \<open>Properties of the item loader\<close>





















section \<open>Properties of \<open>spotify_audio_features\<close>\<close>






lemma issue_simps [simp]:
  "n_req (issue ep hdr p sta) = n_req sta + 1"
  "header_auth (issue ep hdr p sta) = header_auth sta"
  "trace (issue ep hdr p sta) = trace sta @ [Request ep hdr p]"
  by (simp_all add: issue_def)

lemma emit_simps [simp]:
  "n_req (emit es sta) = n_req sta"
  "header_auth (emit es sta) = header_auth sta"
  "trace (emit es sta) = trace sta @ es"
  by (simp_all add: emit_def)

lemma batch_requests_simps [simp]:
  "n_req (batch_requests pf pa sta) = n_req sta + 2"
  "header_auth (batch_requests pf pa sta) = header_auth sta"
  "trace (batch_requests pf pa sta)
     = trace sta @ [Request Features_api (header_auth sta) pf, Request Artists_api (header_auth sta) pa]"
  by (simp_all add: batch_requests_def)



























text \<open>
  The writes of any call that returns \<open>True\<close>: neither request loop writes the log, a
  pass of the row loop writes it exactly when the batch container reaches
  \<open>batch_size\<close> rows, and the remaining rows are appended at the end.
\<close>

lemma csv_writes_append [simp]: "csv_writes (a @ b) = csv_writes a @ csv_writes b"
  by (simp add: csv_writes_def)

lemma csv_writes_simps [simp]:
  "csv_writes [] = []"
  "csv_writes (Request ep h p # tr) = csv_writes tr"
  "csv_writes (Print m # tr) = csv_writes tr"
  "csv_writes (Sleep n # tr) = csv_writes tr"
  "csv_writes (To_csv a b f # tr) = (a, b) # csv_writes tr"
  by (simp_all add: csv_writes_def)

lemma auth_update_csv: "csv_writes (trace (snd (auth_update env sta))) = csv_writes (trace sta)"
  by (simp add: auth_update_def Let_def split: body.splits)

lemma search_loop_csv:
  assumes "search_loop to_int env q sta = Some y"
  shows "csv_writes (trace (snd y)) = csv_writes (trace sta)"
  using assms
proof (induction to_int env q sta y rule: search_loop.raw_induct [rotated, consumes 1, case_names step])
  case (step f to_int env q sta y)
  let ?s1 = "issue Search_api (header_auth sta) q sta"
  consider "status_code (env (n_req sta)) = 429" | "status_code (env (n_req sta)) = 401"
    | "retryable (status_code (env (n_req sta)))" | "status_code (env (n_req sta)) = 200"
    by (auto simp: retryable_def)
  then show ?case
  proof cases
    case 1
    then show ?thesis
      using step(2) by (auto simp: Let_def split: option.splits sum.splits)
  next
    case 2
    show ?thesis
    proof (cases "auth_update env ?s1")
      case (Pair r s2)
      have c: "csv_writes (trace s2) = csv_writes (trace sta)"
        using auth_update_csv [of env ?s1] Pair by simp
      show ?thesis
      proof (cases r)
        case (Inl e)
        then show ?thesis using step(2) 2 Pair c by (auto simp: Let_def)
      next
        case (Inr b)
        then have "f to_int env q s2 = Some y"
          using step(2) 2 Pair by (simp add: Let_def)
        from step(1) [OF this] c show ?thesis by simp
      qed
    qed
  next
    case 3
    then have "f to_int env q
       (emit [Print (Search_exception (json (env (n_req sta)))), Print Postpone, Sleep 5] ?s1) = Some y"
      using step(2) by (simp add: retryable_def Let_def)
    from step(1) [OF this] show ?thesis by simp
  next
    case 4
    then show ?thesis using step(2) by (auto simp: Let_def)
  qed
qed

lemma batch_loop_csv:
  assumes "batch_loop env pf pa sta = Some y"
  shows "csv_writes (trace (snd y)) = csv_writes (trace sta)"
  using assms
proof (induction env pf pa sta y rule: batch_loop.raw_induct [rotated, consumes 1, case_names step])
  case (step f env pf pa sta y)
  let ?s2 = "batch_requests pf pa sta"
  let ?fs = "status_code (env (n_req sta))"
  let ?as = "status_code (env (n_req sta + 1))"
  note body = step(2) [unfolded Let_def, simplified, folded batch_requests_def]
  consider "?fs = 429 \<or> ?as = 429"
    | "?fs \<noteq> 429" "?as \<noteq> 429" "?fs = 401 \<or> ?as = 401"
    | "?fs \<noteq> 429" "?as \<noteq> 429" "?fs \<noteq> 401" "?as \<noteq> 401" "?fs \<noteq> 200"
    | "?fs \<noteq> 429" "?as \<noteq> 429" "?fs \<noteq> 401" "?as \<noteq> 401" "?fs = 200" "?as \<noteq> 200"
    | "?fs = 200" "?as = 200"
    by auto
  then show ?case
  proof cases
    case 1
    then show ?thesis using body by (auto split: if_splits)
  next
    case 2
    show ?thesis
    proof (cases "auth_update env ?s2")
      case (Pair r s3)
      have c: "csv_writes (trace s3) = csv_writes (trace sta)"
        using auth_update_csv [of env ?s2] Pair by simp
      show ?thesis
      proof (cases r)
        case (Inl e)
        then show ?thesis
          using body 2 Pair [unfolded batch_requests_def] c by (auto split: if_splits)
      next
        case (Inr b)
        then have "f env pf pa s3 = Some y"
          using body 2 Pair [unfolded batch_requests_def] by (auto split: if_splits)
        from step(1) [OF this] c show ?thesis by simp
      qed
    qed
  next
    case 3
    then have "f env pf pa
       (emit [Print (Features_exception (json (env (n_req sta)))), Print Postpone, Sleep 5] ?s2) = Some y"
      using body by (simp add: batch_requests_def)
    from step(1) [OF this] show ?thesis by simp
  next
    case 4
    then have "f env pf pa
       (emit [Print (Artists_exception (json (env (n_req sta + 1)))), Print Postpone, Sleep 5] ?s2) = Some y"
      using body by (simp add: batch_requests_def)
    from step(1) [OF this] show ?thesis by simp
  next
    case 5
    then show ?thesis using body by auto
  qed
qed

lemma search_loop_return:
  assumes "search_loop to_int env q sta = Some (Return b, sta')"
  shows "b = False"
  using assms
proof (induction to_int env q sta "(Return b :: response flow, sta')"
    rule: search_loop.raw_induct [rotated, consumes 1, case_names step])
  case (step f to_int env q sta)
  then show ?case
    by (auto simp: Let_def split: if_splits option.splits sum.splits prod.splits)
qed

lemma save_batch_csv:
  assumes "save_batch merge_frames env batch_list sta = Some (r, sta')"
  shows "csv_writes (trace sta') = csv_writes (trace sta)"
  using assms
  by (auto simp: save_batch_def Let_def split: option.splits prod.splits sum.splits
      dest!: batch_loop_csv)

lemma process_row_Continue:
  assumes "process_row lower to_int merge_frames env hot batch_list batch_i sta
      = Some (Continue batch_list' batch_i' sta')"
  shows "if Suc (length batch_list) = batch_size
         then batch_list' = [] \<and> batch_i' = batch_i + 1
              \<and> csv_writes (trace sta') = csv_writes (trace sta) @ [(batch_i \<noteq> 0, batch_i = 0)]
         else length batch_list' = Suc (length batch_list) \<and> batch_i' = batch_i
              \<and> csv_writes (trace sta') = csv_writes (trace sta)"
proof -
  obtain spot_q_resp sta1 where s: "search_loop to_int env (search_payload (artist hot) (song hot)) sta
      = Some (Break spot_q_resp, sta1)"
    using assms
    by (auto simp: process_row_def Let_def split: option.splits flow.splits prod.splits)
  have c1: "csv_writes (trace sta1) = csv_writes (trace sta)"
    using search_loop_csv [OF s] by simp
  show ?thesis
  proof (cases "Suc (length batch_list) = batch_size")
    case True
    then obtain bl df sta2 where "save_batch merge_frames env bl sta1 = Some (Inr df, sta2)"
      and "batch_list' = []" and "batch_i' = batch_i + 1"
      and "sta' = emit [To_csv (batch_i \<noteq> 0) (batch_i = 0) df] sta2"
      using assms s
      by (auto simp: process_row_def Let_def
          split: option.splits prod.splits body.splits sum.splits if_splits)
    then show ?thesis
      using True c1 save_batch_csv by fastforce
  next
    case False
    then show ?thesis
      using assms s c1
      by (auto simp: process_row_def Let_def
          split: option.splits prod.splits body.splits sum.splits if_splits)
  qed
qed

lemma process_row_Stop:
  assumes "process_row lower to_int merge_frames env hot batch_list batch_i sta = Some (Stop r sta')"
  shows "r \<noteq> Inr True"
  using assms
  by (auto simp: process_row_def Let_def
      split: option.splits flow.splits prod.splits body.splits sum.splits if_splits
      dest: search_loop_return)

lemma expected_writes_full:
  "expected_writes (batch_size + k) i = (i \<noteq> 0, i = 0) # expected_writes k (i + 1)"
proof -
  have "[i..<i + (1 + k div batch_size)] = i # [i + 1..<i + 1 + k div batch_size]"
    by (simp add: upt_conv_Cons)
  then show ?thesis
    by (simp add: expected_writes_def batch_size_def)
qed

lemma expected_writes_part:
  "0 < m \<Longrightarrow> m < batch_size \<Longrightarrow> expected_writes m i = [(True, False)]"
  by (simp add: expected_writes_def)

lemma process_rows_csv:
  assumes "process_rows lower to_int merge_frames env rows batch_list batch_i sta
      = Some (Inr True, sta')"
    and "length batch_list < batch_size"
  shows "csv_writes (trace sta')
      = csv_writes (trace sta) @ expected_writes (length batch_list + length rows) batch_i"
  using assms
proof (induction rows arbitrary: batch_list batch_i sta)
  case Nil
  show ?case
  proof (cases "batch_list = []")
    case True
    then show ?thesis using Nil by (simp add: expected_writes_def)
  next
    case False
    then obtain df sta2 where "save_batch merge_frames env batch_list sta = Some (Inr df, sta2)"
      and "sta' = emit [To_csv True False df] sta2"
      using Nil.prems(1) by (auto split: option.splits prod.splits sum.splits)
    then have "csv_writes (trace sta') = csv_writes (trace sta) @ [(True, False)]"
      using save_batch_csv by fastforce
    then show ?thesis
      using False Nil.prems(2) by (simp add: expected_writes_part)
  qed
next
  case (Cons hot hots)
  from Cons.prems(1) obtain bl' bi' sta1
    where r: "process_row lower to_int merge_frames env hot batch_list batch_i sta
        = Some (Continue bl' bi' sta1)"
      and rest: "process_rows lower to_int merge_frames env hots bl' bi' sta1 = Some (Inr True, sta')"
    using process_row_Stop
    by (fastforce split: option.splits step.splits)
  note c = process_row_Continue [OF r]
  show ?case
  proof (cases "Suc (length batch_list) = batch_size")
    case True
    then have bl: "bl' = []" "bi' = batch_i + 1"
      "csv_writes (trace sta1) = csv_writes (trace sta) @ [(batch_i \<noteq> 0, batch_i = 0)]"
      using c by simp_all
    have "csv_writes (trace sta') = csv_writes (trace sta1) @ expected_writes (length hots) (batch_i + 1)"
      using Cons.IH [OF rest] bl by (simp add: batch_size_def)
    moreover have "length batch_list + length (hot # hots) = batch_size + length hots"
      using True by simp
    ultimately show ?thesis
      using bl by (simp only: expected_writes_full) simp
  next
    case False
    then have bl: "length bl' = Suc (length batch_list)" "bi' = batch_i"
      "csv_writes (trace sta1) = csv_writes (trace sta)"
      using c by simp_all
    have "length bl' < batch_size"
      using bl False Cons.prems(2) by simp
    from Cons.IH [OF rest this] show ?thesis
      using bl by simp
  qed
qed

lemma spotify_audio_features_csv:
  assumes "spotify_audio_features lower to_int merge_frames env df = Some (Inr True, sta)"
  shows "csv_writes (trace sta) = expected_writes (length df) 0"
proof -
  obtain b sta0 where a: "auth_update env \<lparr>header_auth = [], n_req = 0, trace = []\<rparr> = (Inr b, sta0)"
    and p: "process_rows lower to_int merge_frames env (sort_key date df) [] 0 sta0 = Some (Inr True, sta)"
    using assms by (auto simp: spotify_audio_features_def split: prod.splits sum.splits)
  have "csv_writes (trace (snd (Inr b :: py_error + bool, sta0))) = csv_writes (trace sta0)"
    by simp
  then have "csv_writes (trace sta0) = []"
    unfolding a [symmetric] auth_update_csv by simp
  moreover have "csv_writes (trace sta)
      = csv_writes (trace sta0) @ expected_writes (length df) 0"
    using process_rows_csv [OF p] by (simp add: batch_size_def)
  ultimately show ?thesis by simp
qed

lemma expected_writes_later: "0 < i \<Longrightarrow> set (expected_writes k i) \<subseteq> {(True, False)}"
  by (auto simp: expected_writes_def)

lemma writes_of_long_input:
  assumes "spotify_audio_features lower to_int merge_frames env df = Some (Inr True, sta)"
    and "batch_size \<le> length df"
  shows "\<exists>ws. csv_writes (trace sta) = (False, True) # ws \<and> set ws \<subseteq> {(True, False)}"
proof -
  obtain k where k: "length df = batch_size + k"
    using assms(2) le_Suc_ex by blast
  have "csv_writes (trace sta) = (False, True) # expected_writes k 1"
    using spotify_audio_features_csv [OF assms(1)] k by (simp add: expected_writes_full)
  then show ?thesis
    using expected_writes_later [of 1 k] by simp
qed

lemma writes_of_short_input:
  assumes "spotify_audio_features lower to_int merge_frames env df = Some (Inr True, sta)"
    and "0 < length df" and "length df < batch_size"
  shows "csv_writes (trace sta) = [(True, False)]"
  using spotify_audio_features_csv [OF assms(1)] assms(2,3) by (simp add: expected_writes_part)


section \<open>Properties of \<open>genres_popul\<close>\<close>















end
